theory Spec2Isabelle
  imports Main "HOL-Library.Word"
begin

section \<open>C strings and character buffers\<close>

text \<open>
  The binding works on NUL-terminated character buffers. A buffer is a list of bytes;
  the C string stored in it is the part before the first NUL byte. Values of type
  \<open>string\<close> stand for the contents of a C string (the bytes before the terminator).
\<close>

definition NUL :: char where
  "NUL = CHR 0x00"

definition c_str :: "char list \<Rightarrow> string" where
  "c_str buf = takeWhile (\<lambda>c. c \<noteq> NUL) buf"

definition strlen :: "char list \<Rightarrow> nat" where
  "strlen buf = length (c_str buf)"

text \<open>\<open>strdupa\<close>: a fresh buffer of \<open>strlen s + 1\<close> bytes holding a copy of the C string.\<close>

definition strdupa :: "string \<Rightarrow> char list" where
  "strdupa s = c_str s @ [NUL]"

text \<open>
  \<open>rindex(s, c)\<close>: the offset of the last occurrence of \<open>c\<close> in the C string held by the
  buffer, \<open>None\<close> for the NULL pointer it returns when there is none. The terminator
  counts as part of the string, as in libc.
\<close>

fun rindex_scan :: "char list \<Rightarrow> char \<Rightarrow> nat \<Rightarrow> nat option \<Rightarrow> nat option" where
  "rindex_scan [] c i found = found"
| "rindex_scan (x # xs) c i found =
     (if x = NUL then (if c = NUL then Some i else found)
      else rindex_scan xs c (Suc i) (if x = c then Some i else found))"

definition rindex :: "char list \<Rightarrow> char \<Rightarrow> nat option" where
  "rindex buf c = rindex_scan buf c 0 None"

text \<open>A store through a pointer: \<open>None\<close> when the offset lies outside the buffer.\<close>

definition poke :: "char list \<Rightarrow> nat \<Rightarrow> char \<Rightarrow> char list option" where
  "poke buf i c = (if i < length buf then Some (buf[i := c]) else None)"

text \<open>
  \<open>snprintf(dst, size, ...)\<close> stores at most \<open>size - 1\<close> bytes of the formatted text,
  then the terminator.
\<close>

definition snprintf :: "nat \<Rightarrow> string \<Rightarrow> string" where
  "snprintf n formatted = take (n - 1) formatted"

text \<open>What \<open>%s\<close> prints for a possibly NULL \<open>char *\<close> (glibc).\<close>

definition fmt_s :: "string option \<Rightarrow> string" where
  "fmt_s p = (case p of None \<Rightarrow> ''(null)'' | Some s \<Rightarrow> s)"

section \<open>Data model\<close>

type_synonym c_int = "32 word"

text \<open>An API handle is an opaque non-NULL pointer; a JSON payload is kept as its text.\<close>

type_synonym afb_api_t = nat
type_synonym json = string

text \<open>
  \<open>CtlConfigT\<close>: the entry point reads the fields \<open>api\<close> and \<open>info\<close>, both \<open>char *\<close>
  that may be NULL. Modelled from the spec: the type declaration is missing from the
  sources; \<open>sections\<close> is the spec's ordered mapping from section key to payload of the
  loaded document.
\<close>

record CtlConfigT =
  api :: "string option"
  info :: "string option"
  sections :: "(string \<times> json) list"

datatype loadCB = PluginConfig | ControlConfig | EventConfig | OnloadConfig

type_synonym CtlSectionT = "string \<times> loadCB"

text \<open>The section table, without its \<open>{ .key = NULL }\<close> end marker.\<close>

definition ctrlSections :: "CtlSectionT list" where
  "ctrlSections =
     [(''plugins'', PluginConfig),
      (''controls'', ControlConfig),
      (''events'', EventConfig),
      (''onload'', OnloadConfig)]"

datatype callback = ctrlapi_ping | ctrlapi_auth

record afb_verb_t =
  verb :: "string option"
  callback :: "callback option"
  verb_info :: "string option"

text \<open>The static verb table; its last entry is the end marker \<open>{ .verb = NULL }\<close>.\<close>

definition CtrlApiVerbs :: "afb_verb_t list" where
  "CtrlApiVerbs =
     [\<lparr>verb = Some ''ping-global'', callback = Some ctrlapi_ping,
       verb_info = Some ''ping test for API''\<rparr>,
      \<lparr>verb = Some ''auth'', callback = Some ctrlapi_auth,
       verb_info = Some ''Authenticate session to raise Level Of Assurance of the session''\<rparr>,
      \<lparr>verb = None, callback = None, verb_info = None\<rparr>]"

section \<open>The host and the controller library\<close>

text \<open>
  Every call the binding makes into the host runtime or the controller library is
  recorded, in order. Calls that return a status carry it.
\<close>

datatype call =
    ApiNotice afb_api_t string
  | ApiError afb_api_t string
  | ConfigSearch afb_api_t string string
  | LoadMetaData afb_api_t string
  | NewApi afb_api_t string "string option" CtlConfigT
  | Free string
  | SetUserdata afb_api_t CtlConfigT
  | AddVerb afb_api_t "string option" "callback option" c_int
  | LoadSections afb_api_t CtlConfigT "CtlSectionT list"
  | SectionLoad loadCB afb_api_t json c_int
  | OnEvent afb_api_t
  | OnInit afb_api_t
  | Seal afb_api_t
  | ConfigExec afb_api_t CtlConfigT

text \<open>
  The state of the host seen by the per-API callbacks: the user data attached to each
  handle (NULL when none was set) and the calls made so far.
\<close>

record host_state =
  userdata :: "afb_api_t \<Rightarrow> CtlConfigT option"
  calls :: "call list"

definition emit :: "call \<Rightarrow> host_state \<Rightarrow> host_state" where
  "emit c hs = hs\<lparr>calls := calls hs @ [c]\<rparr>"

definition emits :: "call list \<Rightarrow> host_state \<Rightarrow> host_state" where
  "emits cs hs = hs\<lparr>calls := calls hs @ cs\<rparr>"

definition afb_api_set_userdata :: "afb_api_t \<Rightarrow> CtlConfigT \<Rightarrow> host_state \<Rightarrow> host_state" where
  "afb_api_set_userdata h cfg hs =
     emit (SetUserdata h cfg) (hs\<lparr>userdata := (userdata hs)(h := Some cfg)\<rparr>)"

definition afb_api_get_userdata :: "host_state \<Rightarrow> afb_api_t \<Rightarrow> CtlConfigT option" where
  "afb_api_get_userdata hs h = userdata hs h"

text \<open>
  What the sources do not contain is a parameter: the macros \<open>ERROR\<close>,
  \<open>CONTROL_PREFIX\<close> and \<open>CONTROL_CONFIG_PATH\<close>, the process environment, the file
  system behind \<open>CtlConfigSearch\<close> and \<open>CtlLoadMetaData\<close>, and the host functions.
  During one module load the lookups are functions of their arguments. The functions
  working on an API under construction may depend on everything done to the host so
  far; \<open>CtlLoadSections\<close> and \<open>CtlConfigExec\<close> return their status and the calls
  they make in turn.
\<close>

record ext =
  ERROR :: c_int
  CONTROL_PREFIX :: string
  CONTROL_CONFIG_PATH :: string
  afb_api_settings :: "afb_api_t \<Rightarrow> (string \<rightharpoonup> string)"
  getEnvDirList :: "string \<Rightarrow> string \<Rightarrow> string option"
  GetBindingDirPath :: "afb_api_t \<Rightarrow> string"
  GetBinderName :: "string option"
  CtlConfigSearch :: "afb_api_t \<Rightarrow> string \<Rightarrow> string \<Rightarrow> string option"
  CtlLoadMetaData :: "afb_api_t \<Rightarrow> string \<Rightarrow> CtlConfigT option"
  afb_api_new_api :: "afb_api_t \<Rightarrow> string \<Rightarrow> string option \<Rightarrow> CtlConfigT \<Rightarrow> bool"
  afb_api_add_verb :: "host_state \<Rightarrow> afb_api_t \<Rightarrow> string option \<Rightarrow> callback option \<Rightarrow> c_int"
  CtlLoadSections :: "host_state \<Rightarrow> afb_api_t \<Rightarrow> CtlConfigT \<Rightarrow> CtlSectionT list \<Rightarrow> c_int \<times> call list"
  CtlConfigExec :: "host_state \<Rightarrow> afb_api_t \<Rightarrow> CtlConfigT \<Rightarrow> c_int \<times> call list"

section \<open>Static verbs\<close>

text \<open>
  \<open>CtrlLoadStaticVerbs\<close>: the loop runs while \<open>verbs[idx].verb\<close> is not NULL, and
  registers the entry \<open>CtrlApiVerbs[idx]\<close> of the global table. The list argument of the
  loop is \<open>verbs\<close> from \<open>idx\<close> on. Running off either array is undefined (\<open>None\<close>).
  The \<open>int\<close> addition is two's complement addition.
\<close>

fun CtrlLoadStaticVerbs_loop ::
  "ext \<Rightarrow> afb_api_t \<Rightarrow> afb_verb_t list \<Rightarrow> nat \<Rightarrow> c_int \<Rightarrow> host_state \<Rightarrow> (c_int \<times> host_state) option"
where
  "CtrlLoadStaticVerbs_loop x h [] idx errcount hs = None"
| "CtrlLoadStaticVerbs_loop x h (v # rest) idx errcount hs =
     (case verb v of
        None \<Rightarrow> Some (errcount, hs)
      | Some _ \<Rightarrow>
          if idx < length CtrlApiVerbs then
            (let g = CtrlApiVerbs ! idx;
                 rc = afb_api_add_verb x hs h (verb g) (callback g)
             in CtrlLoadStaticVerbs_loop x h rest (Suc idx) (errcount + rc)
                  (emit (AddVerb h (verb g) (callback g) rc) hs))
          else None)"

definition CtrlLoadStaticVerbs ::
  "ext \<Rightarrow> afb_api_t \<Rightarrow> afb_verb_t list \<Rightarrow> host_state \<Rightarrow> (c_int \<times> host_state) option"
where
  "CtrlLoadStaticVerbs x h verbs hs = CtrlLoadStaticVerbs_loop x h verbs 0 0 hs"

section \<open>The per-API callbacks\<close>

definition CtrlInitOneApi :: "ext \<Rightarrow> afb_api_t option \<Rightarrow> host_state \<Rightarrow> c_int \<times> host_state" where
  "CtrlInitOneApi x api_ptr hs =
     (case api_ptr of
        None \<Rightarrow> (- 1, hs)
      | Some h \<Rightarrow>
          (case afb_api_get_userdata hs h of
             None \<Rightarrow> (- 2, hs)
           | Some ctrlConfig \<Rightarrow>
               (let (rc, out) = CtlConfigExec x hs h ctrlConfig
                in (rc, emits (ConfigExec h ctrlConfig # out) hs))))"

definition CtrlLoadOneApi ::
  "ext \<Rightarrow> CtlConfigT \<Rightarrow> afb_api_t \<Rightarrow> host_state \<Rightarrow> (c_int \<times> host_state) option"
where
  "CtrlLoadOneApi x cbdata h hs =
     (let ctrlConfig = cbdata;
          hs1 = afb_api_set_userdata h ctrlConfig hs
      in case CtrlLoadStaticVerbs x h CtrlApiVerbs hs1 of
           None \<Rightarrow> None
         | Some (err, hs2) \<Rightarrow>
             if err \<noteq> 0 then
               Some (ERROR x,
                     emit (ApiError h ''CtrlLoadSection fail to register static API verbs'') hs2)
             else
               (let (err', out) = CtlLoadSections x hs2 h ctrlConfig ctrlSections;
                    hs3 = emits (LoadSections h ctrlConfig ctrlSections # out) hs2;
                    hs4 = emit (OnEvent h) hs3;
                    hs5 = emit (OnInit h) hs4;
                    hs6 = emit (Seal h) hs5
                in Some (err', hs6)))"

section \<open>The section dispatcher\<close>

text \<open>
  Modelled from the spec: \<open>CtlLoadSections\<close> belongs to the controller library and is
  missing from the sources. Following the spec's section dispatcher, it walks the section
  table in its fixed order; for each entry whose key exists in the document's sections
  (the first definition of a key is the authoritative one) it invokes the entry's loader
  with the API handle and the section payload, and it returns the sum of the loaders'
  return values. \<open>ld\<close> gives the status a loader returns.
\<close>

fun CtlLoadSections_model ::
  "(host_state \<Rightarrow> loadCB \<Rightarrow> afb_api_t \<Rightarrow> json \<Rightarrow> c_int) \<Rightarrow>
   host_state \<Rightarrow> afb_api_t \<Rightarrow> CtlConfigT \<Rightarrow> CtlSectionT list \<Rightarrow> c_int \<times> call list"
where
  "CtlLoadSections_model ld hs h cfg [] = (0, [])"
| "CtlLoadSections_model ld hs h cfg ((key, cb) # rest) =
     (case map_of (sections cfg) key of
        None \<Rightarrow> CtlLoadSections_model ld hs h cfg rest
      | Some payload \<Rightarrow>
          (let rc = ld hs cb h payload;
               c = SectionLoad cb h payload rc;
               (err, out) = CtlLoadSections_model ld (emit c hs) h cfg rest
           in (rc + err, c # out)))"

text \<open>Reading a list of calls: the loaders invoked, in order, and their statuses.\<close>

fun loaders_invoked :: "call list \<Rightarrow> loadCB list" where
  "loaders_invoked [] = []"
| "loaders_invoked (SectionLoad cb h payload rc # cs) = cb # loaders_invoked cs"
| "loaders_invoked (c # cs) = loaders_invoked cs"

fun loader_statuses :: "call list \<Rightarrow> c_int list" where
  "loader_statuses [] = []"
| "loader_statuses (SectionLoad cb h payload rc # cs) = rc # loader_statuses cs"
| "loader_statuses (c # cs) = loader_statuses cs"

section \<open>The binding entry point\<close>

text \<open>
  The first block of \<open>afbBindingEntry\<close>: the application root directory, from the
  \<open>binding-path\<close> entry of the settings (\<open>None\<close> when the settings have none,
  else the string \<open>json_object_get_string\<close> gives for the entry). The
  pointer \<open>path\<close> is an offset into the copy made by \<open>strdupa\<close>. \<open>strlen\<close> of the
  NULL pointer that \<open>rindex\<close> returns when the path has no \<open>/\<close> is undefined, and so
  is a store outside the copy.
\<close>

datatype root_result = NullDeref | OutOfBounds | PathError | RootDir string

definition ctlapp_RootDir_block :: "string option \<Rightarrow> root_result" where
  "ctlapp_RootDir_block bpath =
     (case bpath of
        Some s \<Rightarrow>
          (let buf = strdupa s in
           case rindex buf CHR ''/'' of
             None \<Rightarrow> NullDeref
           | Some path \<Rightarrow>
               if strlen (drop path buf) < 3 then PathError
               else
                 (case Option.bind (Option.bind (poke buf (path + 1) CHR ''.'')
                                      (\<lambda>b. poke b (path + 2) CHR ''.''))
                         (\<lambda>b. poke b (path + 3) NUL) of
                    None \<Rightarrow> OutOfBounds
                  | Some b \<Rightarrow> RootDir (c_str b)))
      | None \<Rightarrow> RootDir (c_str ([] @ [NUL])))"

text \<open>
  The second block: the directory list. The lengths are \<open>size_t\<close> sums of the lengths of
  strings held in memory together, which do not wrap. \<open>malloc\<close> is taken to succeed.
\<close>

definition dirList_block :: "string option \<Rightarrow> string \<Rightarrow> string \<Rightarrow> string \<Rightarrow> string" where
  "dirList_block envDirList ctlapp_RootDir bindingRootDir config_path =
     (let bindingRootDirLen = length bindingRootDir in
      case envDirList of
        Some e \<Rightarrow>
          (let len = length config_path + length e + length ctlapp_RootDir
                       + bindingRootDirLen + 3
           in snprintf (len + 1)
                (e @ '':'' @ ctlapp_RootDir @ '':'' @ bindingRootDir @ '':'' @ config_path))
      | None \<Rightarrow>
          (let len = length config_path + length ctlapp_RootDir + bindingRootDirLen + 2
           in snprintf (len + 1)
                (bindingRootDir @ '':'' @ ctlapp_RootDir @ '':'' @ config_path)))"

definition msg_entry :: string where
  "msg_entry = ''Controller in afbBindingEntry''"

definition msg_not_found :: "string option \<Rightarrow> string \<Rightarrow> string" where
  "msg_not_found binder dirList =
     ''CtlPreInit: No '' @ fmt_s binder @ ''* config found in '' @ dirList @ '' ''"

definition msg_no_valid_config :: "string \<Rightarrow> string" where
  "msg_no_valid_config configPath =
     ''No valid control config file in:'' @ [CHR 0x0A] @ ''-- '' @ configPath"

definition msg_api_missing :: "string \<Rightarrow> string" where
  "msg_api_missing configPath =
     ''API Missing from metadata in:'' @ [CHR 0x0A] @ ''-- '' @ configPath"

definition msg_api_info :: "string \<Rightarrow> string option \<Rightarrow> string" where
  "msg_api_info name descr =
     ''Controller API='' @ [CHR 0x27] @ name @ [CHR 0x27] @ '' info='' @ [CHR 0x27]
       @ fmt_s descr @ [CHR 0x27]"

text \<open>
  \<open>afbBindingEntry\<close> returns its status and the calls it made, or \<open>None\<close> where its
  behaviour is undefined. \<open>afb_api_new_api\<close> is the host's: the result says whether it
  returned a handle.
\<close>

definition afbBindingEntry :: "ext \<Rightarrow> afb_api_t \<Rightarrow> (c_int \<times> call list) option" where
  "afbBindingEntry x root_api =
     (let t0 = [ApiNotice root_api msg_entry];
          settings = afb_api_settings x root_api
      in case ctlapp_RootDir_block (settings ''binding-path'') of
           NullDeref \<Rightarrow> None
         | OutOfBounds \<Rightarrow> None
         | PathError \<Rightarrow> Some (ERROR x, t0)
         | RootDir ctlapp_RootDir \<Rightarrow>
             (let envDirList = getEnvDirList x (CONTROL_PREFIX x) ''CONFIG_PATH'';
                  bindingRootDir = GetBindingDirPath x root_api;
                  dirList = dirList_block envDirList ctlapp_RootDir bindingRootDir
                              (CONTROL_CONFIG_PATH x);
                  t1 = t0 @ [ConfigSearch root_api dirList []]
              in case CtlConfigSearch x root_api dirList [] of
                   None \<Rightarrow>
                     Some (ERROR x,
                           t1 @ [ApiError root_api (msg_not_found (GetBinderName x) dirList),
                                 Free dirList])
                 | Some configPath \<Rightarrow>
                     (let t2 = t1 @ [LoadMetaData root_api configPath]
                      in case CtlLoadMetaData x root_api configPath of
                           None \<Rightarrow>
                             Some (ERROR x,
                                   t2 @ [ApiError root_api (msg_no_valid_config configPath),
                                         Free dirList])
                         | Some ctrlConfig \<Rightarrow>
                             (case api ctrlConfig of
                                None \<Rightarrow>
                                  Some (ERROR x,
                                        t2 @ [ApiError root_api (msg_api_missing configPath),
                                              Free dirList])
                              | Some name \<Rightarrow>
                                  (let t3 = t2 @ [ApiNotice root_api
                                                    (msg_api_info name (info ctrlConfig)),
                                                  NewApi root_api name (info ctrlConfig)
                                                    ctrlConfig]
                                   in if \<not> afb_api_new_api x root_api name (info ctrlConfig)
                                             ctrlConfig
                                      then Some (ERROR x,
                                                 t3 @ [ApiError root_api ''API creation failed'',
                                                       Free dirList])
                                      else Some (0, t3 @ [Free dirList]))))))"

fun is_NewApi :: "call \<Rightarrow> bool" where
  "is_NewApi (NewApi r name descr cfg) = True"
| "is_NewApi c = False"

section \<open>Concrete environments\<close>

definition demo_cfg :: CtlConfigT where
  "demo_cfg = \<lparr>api = Some ''demo'', info = Some ''x'',
               sections = [(''controls'', ''{ping}''), (''foo'', ''{}''), (''plugins'', ''[]'')]\<rparr>"

definition demo_loader :: "host_state \<Rightarrow> loadCB \<Rightarrow> afb_api_t \<Rightarrow> json \<Rightarrow> c_int" where
  "demo_loader hs cb h payload = (if cb = ControlConfig then 1 else 0)"

definition demo_ext :: ext where
  "demo_ext =
     \<lparr>ERROR = - 1,
      CONTROL_PREFIX = ''CTLAPP'',
      CONTROL_CONFIG_PATH = ''/etc/ctl'',
      afb_api_settings = (\<lambda>r. [''binding-path'' \<mapsto> ''/opt/app/lib'']),
      getEnvDirList = (\<lambda>prefix name. None),
      GetBindingDirPath = (\<lambda>r. ''/opt/app''),
      GetBinderName = Some ''demo'',
      CtlConfigSearch = (\<lambda>r dirs prefix. Some ''/opt/app/demo.json''),
      CtlLoadMetaData = (\<lambda>r path. Some demo_cfg),
      afb_api_new_api = (\<lambda>r name descr cfg. True),
      afb_api_add_verb = (\<lambda>hs h name cb. 0),
      CtlLoadSections = CtlLoadSections_model demo_loader,
      CtlConfigExec = (\<lambda>hs h cfg. (0, []))\<rparr>"

definition demo_host :: host_state where
  "demo_host = \<lparr>userdata = Map.empty, calls = []\<rparr>"

text \<open>Variations of the environment, one for each situation looked at below.\<close>

definition env_ext :: ext where
  "env_ext = demo_ext\<lparr>getEnvDirList := (\<lambda>prefix name. Some ''/over/a:/over/b'')\<rparr>"

definition two_char_ext :: ext where
  "two_char_ext = demo_ext\<lparr>afb_api_settings := (\<lambda>r. [''binding-path'' \<mapsto> ''/usr/ab''])\<rparr>"

definition one_char_ext :: ext where
  "one_char_ext = demo_ext\<lparr>afb_api_settings := (\<lambda>r. [''binding-path'' \<mapsto> ''/usr/a''])\<rparr>"

definition no_slash_ext :: ext where
  "no_slash_ext = demo_ext\<lparr>afb_api_settings := (\<lambda>r. [''binding-path'' \<mapsto> ''lib''])\<rparr>"

definition no_setting_ext :: ext where
  "no_setting_ext = demo_ext\<lparr>afb_api_settings := (\<lambda>r. Map.empty)\<rparr>"

definition not_found_ext :: ext where
  "not_found_ext = demo_ext\<lparr>CtlConfigSearch := (\<lambda>r dirs prefix. None)\<rparr>"

definition no_parse_ext :: ext where
  "no_parse_ext = demo_ext\<lparr>CtlLoadMetaData := (\<lambda>r path. None)\<rparr>"

definition no_api_ext :: ext where
  "no_api_ext = demo_ext\<lparr>CtlLoadMetaData := (\<lambda>r path. Some (demo_cfg\<lparr>api := None\<rparr>))\<rparr>"

definition failing_verbs_ext :: ext where
  "failing_verbs_ext = demo_ext\<lparr>afb_api_add_verb := (\<lambda>hs h name cb. - 1)\<rparr>"


section \<open>Strings and the application root\<close>

lemma NUL_not_slash [simp]:
  "CHR ''/'' \<noteq> NUL" "CHR ''.'' \<noteq> NUL" "NUL \<noteq> CHR ''/''" "NUL \<noteq> CHR ''.''"
  by (simp_all add: NUL_def)

lemma c_str_terminated: "NUL \<notin> set s \<Longrightarrow> c_str (s @ NUL # rest) = s"
  by (induction s) (auto simp: c_str_def)

lemma c_str_id: "NUL \<notin> set s \<Longrightarrow> c_str s = s"
  by (induction s) (auto simp: c_str_def)

lemma strdupa_c_string: "NUL \<notin> set s \<Longrightarrow> strdupa s = s @ [NUL]"
  by (simp add: strdupa_def c_str_id)

lemma rindex_scan_absent:
  "c \<notin> set xs \<Longrightarrow> c \<noteq> NUL \<Longrightarrow> rindex_scan (xs @ [NUL]) c i found = found"
  by (induction xs arbitrary: i found) auto

lemma rindex_scan_last:
  "NUL \<notin> set pre \<Longrightarrow> c \<notin> set suf \<Longrightarrow> c \<noteq> NUL \<Longrightarrow>
   rindex_scan (pre @ c # suf @ [NUL]) c i found = Some (i + length pre)"
  by (induction pre arbitrary: i found) (auto simp: rindex_scan_absent)

lemma rindex_no_slash:
  "CHR ''/'' \<notin> set s \<Longrightarrow> rindex (strdupa s) CHR ''/'' = None"
proof -
  assume "CHR ''/'' \<notin> set s"
  then have "CHR ''/'' \<notin> set (c_str s)"
    unfolding c_str_def by (auto dest: set_takeWhileD)
  then show ?thesis
    by (simp add: rindex_def strdupa_def rindex_scan_absent)
qed

lemma rindex_last_slash:
  "NUL \<notin> set pre \<Longrightarrow> NUL \<notin> set suf \<Longrightarrow> CHR ''/'' \<notin> set suf \<Longrightarrow>
   rindex (strdupa (pre @ CHR ''/'' # suf)) CHR ''/'' = Some (length pre)"
  using rindex_scan_last [of pre "CHR ''/''" suf 0 None]
  by (simp add: rindex_def strdupa_c_string)

lemma strlen_at_slash:
  "NUL \<notin> set pre \<Longrightarrow> NUL \<notin> set suf \<Longrightarrow>
   strlen (drop (length pre) (strdupa (pre @ CHR ''/'' # suf))) = Suc (length suf)"
  using c_str_terminated [of "CHR ''/'' # suf" "[]"]
  by (simp add: strdupa_c_string strlen_def)

lemma root_short:
  assumes "NUL \<notin> set pre" "NUL \<notin> set suf" "CHR ''/'' \<notin> set suf" "length suf < 2"
  shows "ctlapp_RootDir_block (Some (pre @ CHR ''/'' # suf)) = PathError"
  using assms by (simp add: ctlapp_RootDir_block_def rindex_last_slash strlen_at_slash)

lemma poke_at: "i = length xs \<Longrightarrow> poke (xs @ y # ys) i c = Some (xs @ c # ys)"
  by (simp add: poke_def)

lemma root_ok:
  assumes "NUL \<notin> set pre" "NUL \<notin> set suf" "CHR ''/'' \<notin> set suf" "2 \<le> length suf"
  shows "ctlapp_RootDir_block (Some (pre @ CHR ''/'' # suf)) = RootDir (pre @ ''/..'')"
proof -
  from assms(4) obtain a b rest where suf: "suf = a # b # rest"
    by (cases suf; cases "tl suf") auto
  obtain y ys where tail: "rest @ [NUL] = y # ys"
    by (cases rest) auto
  have buf: "strdupa (pre @ CHR ''/'' # suf) = (pre @ ''/'') @ a # b # y # ys"
    using assms(1,2) by (simp add: strdupa_c_string suf tail)
  have p1: "poke ((pre @ ''/'') @ a # b # y # ys) (Suc (length pre)) CHR ''.''
              = Some ((pre @ ''/.'') @ b # y # ys)"
    using poke_at [of "Suc (length pre)" "pre @ ''/''" a "b # y # ys" "CHR ''.''"] by simp
  have p2: "poke ((pre @ ''/.'') @ b # y # ys) (Suc (Suc (length pre))) CHR ''.''
              = Some ((pre @ ''/..'') @ y # ys)"
    using poke_at [of "Suc (Suc (length pre))" "pre @ ''/.''" b "y # ys" "CHR ''.''"] by simp
  have p3: "poke ((pre @ ''/..'') @ y # ys) (length pre + 3) NUL
              = Some ((pre @ ''/..'') @ NUL # ys)"
    using poke_at [of "length pre + 3" "pre @ ''/..''" y ys NUL] by simp
  have fin: "c_str ((pre @ ''/..'') @ NUL # ys) = pre @ ''/..''"
    using assms(1) by (intro c_str_terminated) simp
  have len: "\<not> strlen (drop (length pre) (strdupa (pre @ CHR ''/'' # suf))) < 3"
    using strlen_at_slash [OF assms(1,2)] assms(4) by simp
  show ?thesis
    unfolding ctlapp_RootDir_block_def
    using rindex_last_slash [OF assms(1-3)] len
    by (simp add: buf p1 p2 p3 fin del: append_assoc append.simps)
qed

lemma root_null: "CHR ''/'' \<notin> set s \<Longrightarrow> ctlapp_RootDir_block (Some s) = NullDeref"
  by (simp add: ctlapp_RootDir_block_def rindex_no_slash)

lemma root_unset: "ctlapp_RootDir_block None = RootDir []"
  by (simp add: ctlapp_RootDir_block_def c_str_def)

lemma dirList_env:
  "dirList_block (Some e) root brd cp = e @ '':'' @ root @ '':'' @ brd @ '':'' @ cp"
  by (simp add: dirList_block_def snprintf_def)

lemma dirList_noenv:
  "dirList_block None root brd cp = brd @ '':'' @ root @ '':'' @ cp"
  by (simp add: dirList_block_def snprintf_def)

section \<open>Static verbs and the dispatcher\<close>

lemma static_verbs:
  "CtrlLoadStaticVerbs x h CtrlApiVerbs hs =
     Some (afb_api_add_verb x hs h (Some ''ping-global'') (Some ctrlapi_ping)
           + afb_api_add_verb x
               (emit (AddVerb h (Some ''ping-global'') (Some ctrlapi_ping)
                        (afb_api_add_verb x hs h (Some ''ping-global'') (Some ctrlapi_ping))) hs)
               h (Some ''auth'') (Some ctrlapi_auth),
           emit (AddVerb h (Some ''auth'') (Some ctrlapi_auth)
                   (afb_api_add_verb x
                      (emit (AddVerb h (Some ''ping-global'') (Some ctrlapi_ping)
                               (afb_api_add_verb x hs h (Some ''ping-global'') (Some ctrlapi_ping))) hs)
                      h (Some ''auth'') (Some ctrlapi_auth)))
             (emit (AddVerb h (Some ''ping-global'') (Some ctrlapi_ping)
                      (afb_api_add_verb x hs h (Some ''ping-global'') (Some ctrlapi_ping))) hs))"
  by (simp add: CtrlLoadStaticVerbs_def CtrlApiVerbs_def Let_def)

lemma static_verbs_calls:
  "\<exists>r1 r2 hs2. CtrlLoadStaticVerbs x h CtrlApiVerbs hs = Some (r1 + r2, hs2)
      \<and> userdata hs2 = userdata hs
      \<and> calls hs2 = calls hs @ [AddVerb h (Some ''ping-global'') (Some ctrlapi_ping) r1,
                                 AddVerb h (Some ''auth'') (Some ctrlapi_auth) r2]
      \<and> r1 = afb_api_add_verb x hs h (Some ''ping-global'') (Some ctrlapi_ping)
      \<and> r2 = afb_api_add_verb x (emit (AddVerb h (Some ''ping-global'') (Some ctrlapi_ping) r1) hs)
                h (Some ''auth'') (Some ctrlapi_auth)"
  by (simp add: static_verbs emit_def)

lemma loaders_general:
  "loaders_invoked (snd (CtlLoadSections_model ld hs h cfg tbl))
     = map snd (filter (\<lambda>e. fst e \<in> fst ` set (sections cfg)) tbl)"
proof (induction tbl arbitrary: hs)
  case Nil
  show ?case by simp
next
  case (Cons e tbl)
  obtain key cb where e: "e = (key, cb)" by (cases e)
  show ?case
  proof (cases "map_of (sections cfg) key")
    case None
    then have "key \<notin> fst ` set (sections cfg)" by (simp add: map_of_eq_None_iff)
    with None Cons show ?thesis by (simp add: e)
  next
    case (Some payload)
    then have "key \<in> fst ` set (sections cfg)"
      by (metis map_of_eq_None_iff option.distinct(1))
    with Some Cons show ?thesis by (simp add: e Let_def case_prod_unfold)
  qed
qed

lemma statuses_general:
  "fst (CtlLoadSections_model ld hs h cfg tbl)
     = sum_list (loader_statuses (snd (CtlLoadSections_model ld hs h cfg tbl)))"
proof (induction tbl arbitrary: hs)
  case Nil
  show ?case by simp
next
  case (Cons e tbl)
  obtain key cb where e: "e = (key, cb)" by (cases e)
  show ?case
    using Cons by (cases "map_of (sections cfg) key") (simp_all add: e Let_def case_prod_unfold)
qed

lemma model_map_of:
  "map_of (sections c1) = map_of (sections c2) \<Longrightarrow>
   CtlLoadSections_model ld hs h c1 tbl = CtlLoadSections_model ld hs h c2 tbl"
proof (induction tbl arbitrary: hs)
  case Nil
  show ?case by simp
next
  case (Cons e tbl)
  obtain key cb where e: "e = (key, cb)" by (cases e)
  show ?case
    using Cons by (cases "map_of (sections c2) key") (simp_all add: e)
qed

lemma model_restrict:
  "\<forall>k \<in> fst ` set tbl. map_of (sections c1) k = map_of (sections c2) k \<Longrightarrow>
   CtlLoadSections_model ld hs h c1 tbl = CtlLoadSections_model ld hs h c2 tbl"
proof (induction tbl arbitrary: hs)
  case Nil
  show ?case by simp
next
  case (Cons e tbl)
  obtain key cb where e: "e = (key, cb)" by (cases e)
  show ?case
    using Cons by (cases "map_of (sections c2) key") (simp_all add: e)
qed

lemma map_of_skip:
  "k' \<noteq> k \<Longrightarrow> map_of (xs @ (k, v) # ys) k' = map_of (xs @ ys) k'"
  by (simp add: map_add_def split: option.splits)

lemmas demo_defs = demo_ext_def demo_cfg_def demo_host_def demo_loader_def

lemma demo_root: "ctlapp_RootDir_block (Some ''/opt/app/lib'') = RootDir ''/opt/app/..''"
  using root_ok [of "''/opt/app''" "''lib''"] by (simp add: NUL_def)


section \<open>Properties of the binding\<close>

subsection \<open>C1: what the pre-init callback returns, and when it seals\<close>

text \<open>
  C1 (amended). \<open>CtrlLoadOneApi\<close> first registers the static verbs. When that registration
  reports zero failures, the integer returned is that count plus the count returned by
  \<open>CtlLoadSections\<close> for the table \<open>ctrlSections\<close>, and the calls end with the event hook,
  the init hook and the sealing of the handle, whatever the section count is. When the
  static registration reports a nonzero count, the callback logs an error and returns
  \<open>ERROR\<close> at once: no section is dispatched, no hook is registered and the handle is not
  sealed.
\<close>

theorem C1_preinit_result:
  "\<exists>static hs2.
      CtrlLoadStaticVerbs x h CtrlApiVerbs (afb_api_set_userdata h cfg hs) = Some (static, hs2)
      \<and> (static = 0 \<longrightarrow>
           CtrlLoadOneApi x cfg h hs =
             Some (static + fst (CtlLoadSections x hs2 h cfg ctrlSections),
                   hs2\<lparr>calls := calls hs2
                          @ LoadSections h cfg ctrlSections
                            # snd (CtlLoadSections x hs2 h cfg ctrlSections)
                          @ [OnEvent h, OnInit h, Seal h]\<rparr>))
      \<and> (static \<noteq> 0 \<longrightarrow>
           CtrlLoadOneApi x cfg h hs =
             Some (ERROR x,
                   hs2\<lparr>calls := calls hs2
                          @ [ApiError h ''CtrlLoadSection fail to register static API verbs'']\<rparr>))"
  by (simp add: CtrlLoadOneApi_def static_verbs Let_def emit_def emits_def case_prod_unfold)

text \<open>
  Both branches at concrete hosts: one that accepts every verb (the sections report one
  failure, the handle is sealed), one that refuses every verb.
\<close>

theorem C1_preinit_result_witness:
  "map_option fst (CtrlLoadStaticVerbs demo_ext 1 CtrlApiVerbs
                     (afb_api_set_userdata 1 demo_cfg demo_host)) = Some 0
   \<and> map_option fst (CtrlLoadOneApi demo_ext demo_cfg 1 demo_host) = Some 1
   \<and> map_option (\<lambda>p. last (calls (snd p))) (CtrlLoadOneApi demo_ext demo_cfg 1 demo_host)
       = Some (Seal 1)
   \<and> map_option fst (CtrlLoadStaticVerbs failing_verbs_ext 1 CtrlApiVerbs
                        (afb_api_set_userdata 1 demo_cfg demo_host)) = Some (- 2)
   \<and> map_option fst (CtrlLoadOneApi failing_verbs_ext demo_cfg 1 demo_host) = Some (- 1)"
  using C1_preinit_result [of demo_ext 1 demo_cfg demo_host]
        C1_preinit_result [of failing_verbs_ext 1 demo_cfg demo_host]
  by (simp add: demo_defs failing_verbs_ext_def static_verbs CtrlLoadOneApi_def ctrlSections_def
        Let_def emit_def emits_def afb_api_set_userdata_def)

text \<open>
  C1 as stated fails on a host that refuses the static verbs: the static registration
  counts \<open>-2\<close>, the callback returns \<open>ERROR = -1\<close>, and the calls made contain neither a
  section dispatch nor the sealing of the handle.
\<close>

theorem C1_counterexample:
  "map_option fst (CtrlLoadStaticVerbs failing_verbs_ext 1 CtrlApiVerbs
                     (afb_api_set_userdata 1 demo_cfg demo_host)) = Some (- 2)
   \<and> map_option fst (CtrlLoadOneApi failing_verbs_ext demo_cfg 1 demo_host) = Some (- 1)
   \<and> map_option (\<lambda>p. calls (snd p)) (CtrlLoadOneApi failing_verbs_ext demo_cfg 1 demo_host)
       = Some [SetUserdata 1 demo_cfg,
               AddVerb 1 (Some ''ping-global'') (Some ctrlapi_ping) (- 1),
               AddVerb 1 (Some ''auth'') (Some ctrlapi_auth) (- 1),
               ApiError 1 ''CtrlLoadSection fail to register static API verbs'']"
  by (simp add: demo_defs failing_verbs_ext_def static_verbs CtrlLoadOneApi_def
        Let_def emit_def afb_api_set_userdata_def)

subsection \<open>C2: the order of the search path\<close>

text \<open>
  C2. Whenever the application root has been derived, the directory list handed to the
  configuration search is exactly, colon-delimited and with nothing removed: the override
  list, the application root, the runtime root and the fallback when the environment
  override is present; otherwise the runtime root, the application root and the fallback.
\<close>

theorem C2_search_path_order:
  assumes "ctlapp_RootDir_block (afb_api_settings x r ''binding-path'') = RootDir root"
  shows "\<exists>rc rest. afbBindingEntry x r =
           Some (rc, ApiNotice r msg_entry
                     # ConfigSearch r
                         (case getEnvDirList x (CONTROL_PREFIX x) ''CONFIG_PATH'' of
                            Some override \<Rightarrow>
                              override @ '':'' @ root @ '':'' @ GetBindingDirPath x r
                                @ '':'' @ CONTROL_CONFIG_PATH x
                          | None \<Rightarrow>
                              GetBindingDirPath x r @ '':'' @ root
                                @ '':'' @ CONTROL_CONFIG_PATH x) []
                     # rest)"
  using assms
  by (cases "getEnvDirList x (CONTROL_PREFIX x) ''CONFIG_PATH''")
     (simp_all add: afbBindingEntry_def Let_def dirList_env dirList_noenv split: option.splits)

text \<open>With an override list of two directories:\<close>

theorem C2_search_path_order_witness:
  "ctlapp_RootDir_block (afb_api_settings env_ext 0 ''binding-path'') = RootDir ''/opt/app/..''
   \<and> (\<exists>rc rest. afbBindingEntry env_ext 0 =
          Some (rc, ApiNotice 0 msg_entry
                    # ConfigSearch 0 ''/over/a:/over/b:/opt/app/..:/opt/app:/etc/ctl'' []
                    # rest))"
proof -
  have h: "ctlapp_RootDir_block (afb_api_settings env_ext 0 ''binding-path'') = RootDir ''/opt/app/..''"
    by (simp add: env_ext_def demo_ext_def demo_root)
  show ?thesis
    using h C2_search_path_order [OF h] by (simp add: env_ext_def demo_ext_def)
qed

subsection \<open>C3: the malformed binding path\<close>

text \<open>
  C3 (amended). For every binding install path that contains a separator and whose suffix
  starting at the last separator, the separator included, has fewer than 3 characters
  (fewer than 2 characters after the separator), the entry point returns \<open>ERROR\<close> after
  its opening notice and does nothing else: no directory list is built and no
  configuration is searched.
\<close>

theorem C3_short_suffix_is_path_error:
  assumes "afb_api_settings x r ''binding-path'' = Some (pre @ CHR ''/'' # suf)"
    and "NUL \<notin> set pre" and "NUL \<notin> set suf" and "CHR ''/'' \<notin> set suf"
    and "length (CHR ''/'' # suf) < 3"
  shows "afbBindingEntry x r = Some (ERROR x, [ApiNotice r msg_entry])"
  using assms root_short [of pre suf]
  by (simp add: afbBindingEntry_def)

text \<open>The path \<open>/usr/a\<close> has one character after its last separator:\<close>

theorem C3_short_suffix_is_path_error_witness:
  "afb_api_settings one_char_ext 0 ''binding-path'' = Some (''/usr'' @ CHR ''/'' # ''a'')
   \<and> afbBindingEntry one_char_ext 0 = Some (- 1, [ApiNotice 0 msg_entry])"
  using C3_short_suffix_is_path_error [of one_char_ext 0 "''/usr''" "''a''"]
  by (simp add: NUL_def one_char_ext_def demo_ext_def)

text \<open>
  C3 as stated fails at the path \<open>/usr/ab\<close>: the portion after the last separator has 2
  characters, fewer than 3, yet the entry point builds the directory list with the root
  \<open>/usr/..\<close>, searches it and returns 0.
\<close>

theorem C3_counterexample:
  "afb_api_settings two_char_ext 0 ''binding-path'' = Some (''/usr/'' @ ''ab'')
   \<and> length ''ab'' < 3
   \<and> ERROR two_char_ext = - 1
   \<and> afbBindingEntry two_char_ext 0 =
       Some (0, [ApiNotice 0 msg_entry,
                 ConfigSearch 0 ''/opt/app:/usr/..:/etc/ctl'' [],
                 LoadMetaData 0 ''/opt/app/demo.json'',
                 ApiNotice 0 (msg_api_info ''demo'' (Some ''x'')),
                 NewApi 0 ''demo'' (Some ''x'') demo_cfg,
                 Free ''/opt/app:/usr/..:/etc/ctl''])"
proof -
  have "ctlapp_RootDir_block (Some ''/usr/ab'') = RootDir ''/usr/..''"
    using root_ok [of "''/usr''" "''ab''"] by (simp add: NUL_def)
  then show ?thesis
    by (simp add: two_char_ext_def demo_ext_def afbBindingEntry_def dirList_noenv demo_cfg_def Let_def)
qed

subsection \<open>C4: the order of section dispatch\<close>

text \<open>
  C4. With the table \<open>ctrlSections\<close>, the section dispatcher invokes the loaders of the
  sections present in the document in the order plugins, controls, events, onload, which
  depends on the set of keys of the document only; the status it returns is the sum of the
  statuses of the loaders invoked. A section whose key is not in the table changes
  neither the loaders invoked nor the status, wherever it stands in the document, and two
  documents with distinct keys and the same sections in a different order are dispatched
  alike.
\<close>

theorem C4_dispatch_order:
  "loaders_invoked (snd (CtlLoadSections_model ld hs h cfg ctrlSections)) =
     (if ''plugins'' \<in> fst ` set (sections cfg) then [PluginConfig] else [])
     @ (if ''controls'' \<in> fst ` set (sections cfg) then [ControlConfig] else [])
     @ (if ''events'' \<in> fst ` set (sections cfg) then [EventConfig] else [])
     @ (if ''onload'' \<in> fst ` set (sections cfg) then [OnloadConfig] else [])
   \<and> fst (CtlLoadSections_model ld hs h cfg ctrlSections) =
       sum_list (loader_statuses (snd (CtlLoadSections_model ld hs h cfg ctrlSections)))
   \<and> (key \<notin> {''plugins'', ''controls'', ''events'', ''onload''} \<longrightarrow>
        CtlLoadSections_model ld hs h (cfg\<lparr>sections := before @ (key, payload) # after\<rparr>)
          ctrlSections
        = CtlLoadSections_model ld hs h (cfg\<lparr>sections := before @ after\<rparr>) ctrlSections)
   \<and> (distinct (map fst (sections cfg)) \<and> distinct (map fst (sections cfg'))
        \<and> set (sections cfg') = set (sections cfg) \<longrightarrow>
        CtlLoadSections_model ld hs h cfg' ctrlSections
        = CtlLoadSections_model ld hs h cfg ctrlSections)"
proof (intro conjI impI)
  show "loaders_invoked (snd (CtlLoadSections_model ld hs h cfg ctrlSections)) =
     (if ''plugins'' \<in> fst ` set (sections cfg) then [PluginConfig] else [])
     @ (if ''controls'' \<in> fst ` set (sections cfg) then [ControlConfig] else [])
     @ (if ''events'' \<in> fst ` set (sections cfg) then [EventConfig] else [])
     @ (if ''onload'' \<in> fst ` set (sections cfg) then [OnloadConfig] else [])"
    unfolding loaders_general by (simp add: ctrlSections_def)
  show "fst (CtlLoadSections_model ld hs h cfg ctrlSections) =
       sum_list (loader_statuses (snd (CtlLoadSections_model ld hs h cfg ctrlSections)))"
    by (rule statuses_general)
next
  assume "key \<notin> {''plugins'', ''controls'', ''events'', ''onload''}"
  then have "\<forall>k \<in> fst ` set ctrlSections.
      map_of (sections (cfg\<lparr>sections := before @ (key, payload) # after\<rparr>)) k
      = map_of (sections (cfg\<lparr>sections := before @ after\<rparr>)) k"
    by (auto simp add: ctrlSections_def map_of_skip simp del: map_of_append)
  then show "CtlLoadSections_model ld hs h (cfg\<lparr>sections := before @ (key, payload) # after\<rparr>)
          ctrlSections
        = CtlLoadSections_model ld hs h (cfg\<lparr>sections := before @ after\<rparr>) ctrlSections"
    by (rule model_restrict)
next
  assume "distinct (map fst (sections cfg)) \<and> distinct (map fst (sections cfg'))
        \<and> set (sections cfg') = set (sections cfg)"
  then have "map_of (sections cfg') = map_of (sections cfg)"
    by (simp add: map_of_inject_set)
  then show "CtlLoadSections_model ld hs h cfg' ctrlSections
        = CtlLoadSections_model ld hs h cfg ctrlSections"
    by (rule model_map_of)
qed

text \<open>
  A document with controls before plugins and an unknown section \<open>foo\<close> between them:
  the plugins loader runs first, \<open>foo\<close> runs nothing.
\<close>

theorem C4_dispatch_order_witness:
  "''foo'' \<notin> {''plugins'', ''controls'', ''events'', ''onload''}
   \<and> sections demo_cfg = [(''controls'', ''{ping}'')] @ (''foo'', ''{}'') # [(''plugins'', ''[]'')]
   \<and> CtlLoadSections_model demo_loader demo_host 1 demo_cfg ctrlSections
       = (1, [SectionLoad PluginConfig 1 ''[]'' 0, SectionLoad ControlConfig 1 ''{ping}'' 1])
   \<and> CtlLoadSections_model demo_loader demo_host 1
         (demo_cfg\<lparr>sections := [(''controls'', ''{ping}'')] @ [(''plugins'', ''[]'')]\<rparr>) ctrlSections
       = (1, [SectionLoad PluginConfig 1 ''[]'' 0, SectionLoad ControlConfig 1 ''{ping}'' 1])
   \<and> CtlLoadSections_model demo_loader demo_host 1
         (demo_cfg\<lparr>sections := [(''plugins'', ''[]''), (''controls'', ''{ping}'')]\<rparr>) ctrlSections
       = (1, [SectionLoad PluginConfig 1 ''[]'' 0, SectionLoad ControlConfig 1 ''{ping}'' 1])"
  using C4_dispatch_order
          [of demo_loader demo_host 1 "demo_cfg\<lparr>sections := [(''controls'', ''{ping}''), (''plugins'', ''[]'')]\<rparr>"
              "''foo''" "[(''controls'', ''{ping}'')]" "''{}''" "[(''plugins'', ''[]'')]"
              "demo_cfg\<lparr>sections := [(''plugins'', ''[]''), (''controls'', ''{ping}'')]\<rparr>"]
  by (simp add: demo_defs ctrlSections_def Let_def emit_def)

subsection \<open>C5: no configuration file\<close>

text \<open>
  C5. When the configuration search finds no file in the composed directory list, the
  entry point returns \<open>ERROR\<close>; before that it logs an error whose text contains the
  whole directory list, and releases the list. The host receives no request to create an
  API.
\<close>

theorem C5_config_not_found:
  assumes "ctlapp_RootDir_block (afb_api_settings x r ''binding-path'') = RootDir root"
    and "dirList = dirList_block (getEnvDirList x (CONTROL_PREFIX x) ''CONFIG_PATH'') root
                     (GetBindingDirPath x r) (CONTROL_CONFIG_PATH x)"
    and "CtlConfigSearch x r dirList [] = None"
  shows "\<exists>tr. afbBindingEntry x r = Some (ERROR x, tr)
           \<and> tr = [ApiNotice r msg_entry,
                    ConfigSearch r dirList [],
                    ApiError r (''CtlPreInit: No '' @ fmt_s (GetBinderName x)
                                  @ ''* config found in '' @ dirList @ '' ''),
                    Free dirList]
           \<and> \<not> list_ex is_NewApi tr"
  using assms by (simp add: afbBindingEntry_def Let_def msg_not_found_def)

text \<open>On a file system without any configuration file:\<close>

theorem C5_config_not_found_witness:
  "ctlapp_RootDir_block (afb_api_settings not_found_ext 0 ''binding-path'') = RootDir ''/opt/app/..''
   \<and> CtlConfigSearch not_found_ext 0 ''/opt/app:/opt/app/..:/etc/ctl'' [] = None
   \<and> afbBindingEntry not_found_ext 0 =
       Some (- 1, [ApiNotice 0 msg_entry,
                   ConfigSearch 0 ''/opt/app:/opt/app/..:/etc/ctl'' [],
                   ApiError 0 ''CtlPreInit: No demo* config found in /opt/app:/opt/app/..:/etc/ctl '',
                   Free ''/opt/app:/opt/app/..:/etc/ctl''])"
proof -
  have h: "ctlapp_RootDir_block (afb_api_settings not_found_ext 0 ''binding-path'')
             = RootDir ''/opt/app/..''"
    by (simp add: not_found_ext_def demo_ext_def demo_root)
  show ?thesis
    using h C5_config_not_found [OF h, of "''/opt/app:/opt/app/..:/etc/ctl''"]
    by (simp add: not_found_ext_def demo_ext_def dirList_noenv fmt_s_def)
qed

subsection \<open>C6: parse failure and missing metadata\<close>

text \<open>
  C6. Once a configuration file is located, the entry point returns \<open>ERROR\<close> without
  asking the host for an API both when the loader returns no document and when the
  document has no API name; the error logged in the first case differs from the one
  logged in the second, whatever the file paths.
\<close>

theorem C6_parse_and_metadata_failures:
  assumes "ctlapp_RootDir_block (afb_api_settings x r ''binding-path'') = RootDir root"
    and "dirList = dirList_block (getEnvDirList x (CONTROL_PREFIX x) ''CONFIG_PATH'') root
                     (GetBindingDirPath x r) (CONTROL_CONFIG_PATH x)"
    and "CtlConfigSearch x r dirList [] = Some configPath"
  shows "(CtlLoadMetaData x r configPath = None \<longrightarrow>
            (\<exists>tr. afbBindingEntry x r = Some (ERROR x, tr)
               \<and> tr = [ApiNotice r msg_entry, ConfigSearch r dirList [],
                        LoadMetaData r configPath,
                        ApiError r (msg_no_valid_config configPath), Free dirList]
               \<and> \<not> list_ex is_NewApi tr))
         \<and> (\<forall>doc. CtlLoadMetaData x r configPath = Some doc \<and> api doc = None \<longrightarrow>
            (\<exists>tr. afbBindingEntry x r = Some (ERROR x, tr)
               \<and> tr = [ApiNotice r msg_entry, ConfigSearch r dirList [],
                        LoadMetaData r configPath,
                        ApiError r (msg_api_missing configPath), Free dirList]
               \<and> \<not> list_ex is_NewApi tr))
         \<and> (\<forall>p q. msg_no_valid_config p \<noteq> msg_api_missing q)"
  using assms
  by (auto simp add: afbBindingEntry_def Let_def msg_no_valid_config_def msg_api_missing_def)

text \<open>A file that does not parse, and a file without the API name:\<close>

theorem C6_parse_and_metadata_failures_witness:
  "CtlConfigSearch no_parse_ext 0 ''/opt/app:/opt/app/..:/etc/ctl'' [] = Some ''/opt/app/demo.json''
   \<and> CtlLoadMetaData no_parse_ext 0 ''/opt/app/demo.json'' = None
   \<and> afbBindingEntry no_parse_ext 0 =
       Some (- 1, [ApiNotice 0 msg_entry,
                   ConfigSearch 0 ''/opt/app:/opt/app/..:/etc/ctl'' [],
                   LoadMetaData 0 ''/opt/app/demo.json'',
                   ApiError 0 (msg_no_valid_config ''/opt/app/demo.json''),
                   Free ''/opt/app:/opt/app/..:/etc/ctl''])
   \<and> CtlLoadMetaData no_api_ext 0 ''/opt/app/demo.json'' = Some (demo_cfg\<lparr>api := None\<rparr>)
   \<and> afbBindingEntry no_api_ext 0 =
       Some (- 1, [ApiNotice 0 msg_entry,
                   ConfigSearch 0 ''/opt/app:/opt/app/..:/etc/ctl'' [],
                   LoadMetaData 0 ''/opt/app/demo.json'',
                   ApiError 0 (msg_api_missing ''/opt/app/demo.json''),
                   Free ''/opt/app:/opt/app/..:/etc/ctl''])"
proof -
  have h1: "ctlapp_RootDir_block (afb_api_settings no_parse_ext 0 ''binding-path'')
              = RootDir ''/opt/app/..''"
    by (simp add: no_parse_ext_def demo_ext_def demo_root)
  have h2: "ctlapp_RootDir_block (afb_api_settings no_api_ext 0 ''binding-path'')
              = RootDir ''/opt/app/..''"
    by (simp add: no_api_ext_def demo_ext_def demo_root)
  show ?thesis
    using C6_parse_and_metadata_failures
            [OF h1, of "''/opt/app:/opt/app/..:/etc/ctl''" "''/opt/app/demo.json''"]
          C6_parse_and_metadata_failures
            [OF h2, of "''/opt/app:/opt/app/..:/etc/ctl''" "''/opt/app/demo.json''"]
    by (simp add: no_parse_ext_def no_api_ext_def demo_ext_def dirList_noenv demo_cfg_def)
qed

subsection \<open>C7: the init hook\<close>

text \<open>
  C7. \<open>CtrlInitOneApi\<close> receives the handle only. It returns \<open>-1\<close> for a NULL handle and
  \<open>-2\<close> when the handle has no user data, both negative, and makes no call then;
  otherwise it runs \<open>CtlConfigExec\<close> on the document read from the user data of the
  handle. The document found there after \<open>CtrlLoadOneApi\<close> is the one that callback was
  given.
\<close>

theorem C7_init_hook:
  "CtrlInitOneApi x None hs = (- 1, hs)
   \<and> sint (- 1 :: c_int) < 0
   \<and> (afb_api_get_userdata hs h = None \<longrightarrow>
        CtrlInitOneApi x (Some h) hs = (- 2, hs) \<and> sint (- 2 :: c_int) < 0)
   \<and> (\<forall>doc. afb_api_get_userdata hs h = Some doc \<longrightarrow>
        CtrlInitOneApi x (Some h) hs =
          (fst (CtlConfigExec x hs h doc),
           hs\<lparr>calls := calls hs @ ConfigExec h doc # snd (CtlConfigExec x hs h doc)\<rparr>))
   \<and> (\<forall>rc hs1. CtrlLoadOneApi x cfg h hs = Some (rc, hs1) \<longrightarrow>
        afb_api_get_userdata hs1 h = Some cfg)"
proof -
  have "\<forall>rc hs1. CtrlLoadOneApi x cfg h hs = Some (rc, hs1) \<longrightarrow> userdata hs1 h = Some cfg"
    by (auto simp add: CtrlLoadOneApi_def static_verbs Let_def emit_def emits_def
          afb_api_set_userdata_def case_prod_unfold split: if_splits)
  then show ?thesis
    by (simp add: CtrlInitOneApi_def afb_api_get_userdata_def emits_def case_prod_unfold Let_def)
qed

text \<open>A handle without user data, and the same handle after its pre-init:\<close>

theorem C7_init_hook_witness:
  "afb_api_get_userdata demo_host 1 = None
   \<and> CtrlInitOneApi demo_ext (Some 1) demo_host = (- 2, demo_host)
   \<and> map_option fst (CtrlLoadOneApi demo_ext demo_cfg 1 demo_host) = Some 1
   \<and> map_option (\<lambda>p. afb_api_get_userdata (snd p) 1) (CtrlLoadOneApi demo_ext demo_cfg 1 demo_host)
       = Some (Some demo_cfg)
   \<and> map_option (\<lambda>p. fst (CtrlInitOneApi demo_ext (Some 1) (snd p)))
       (CtrlLoadOneApi demo_ext demo_cfg 1 demo_host) = Some 0"
  using C7_init_hook [of demo_ext demo_host 1 demo_cfg]
  by (simp add: demo_defs afb_api_get_userdata_def CtrlLoadOneApi_def static_verbs
        ctrlSections_def Let_def emit_def emits_def afb_api_set_userdata_def CtrlInitOneApi_def)

subsection \<open>C8: the built-in verbs\<close>




subsection \<open>C9: the application root\<close>

text \<open>
  C9. For a binding path that contains \<open>/\<close> and whose suffix starting at the last \<open>/\<close>
  has length at least 3, the derivation yields the prefix up to and including the last
  \<open>/\<close> followed by \<open>..\<close>, every store staying inside the copy. For a binding path without
  any \<open>/\<close>, \<open>rindex\<close> returns NULL, which is passed to \<open>strlen\<close> unchecked: the entry
  point has no defined result.
\<close>

theorem C9_app_root_derivation:
  "(NUL \<notin> set pre \<and> NUL \<notin> set suf \<and> CHR ''/'' \<notin> set suf \<and> 3 \<le> length (CHR ''/'' # suf)
      \<longrightarrow> ctlapp_RootDir_block (Some (pre @ CHR ''/'' # suf)) = RootDir (pre @ ''/'' @ ''..''))
   \<and> (CHR ''/'' \<notin> set bp
      \<longrightarrow> ctlapp_RootDir_block (Some bp) = NullDeref
          \<and> (afb_api_settings x r ''binding-path'' = Some bp \<longrightarrow> afbBindingEntry x r = None))"
  using root_ok [of pre suf] root_null [of bp]
  by (simp add: afbBindingEntry_def)

text \<open>The paths \<open>/opt/app/lib\<close> and \<open>lib\<close>:\<close>

theorem C9_app_root_derivation_witness:
  "ctlapp_RootDir_block (Some ''/opt/app/lib'') = RootDir ''/opt/app/..''
   \<and> ctlapp_RootDir_block (Some ''lib'') = NullDeref
   \<and> afbBindingEntry no_slash_ext 0 = None"
  using C9_app_root_derivation [of "''/opt/app''" "''lib''" "''lib''" no_slash_ext 0]
  by (simp add: NUL_def no_slash_ext_def demo_ext_def)

subsection \<open>C10: settings without a binding path\<close>

text \<open>
  C10. When the settings have no \<open>binding-path\<close> entry, the application root is the empty
  string and the entry point goes on to the configuration search: the directory list has
  two adjacent colons where the application root stands.
\<close>

theorem C10_missing_binding_path:
  assumes "afb_api_settings x r ''binding-path'' = None"
  shows "ctlapp_RootDir_block (afb_api_settings x r ''binding-path'') = RootDir []
         \<and> (\<exists>rc rest. afbBindingEntry x r =
               Some (rc, ApiNotice r msg_entry
                         # ConfigSearch r
                             (case getEnvDirList x (CONTROL_PREFIX x) ''CONFIG_PATH'' of
                                Some override \<Rightarrow>
                                  override @ ''::'' @ GetBindingDirPath x r
                                    @ '':'' @ CONTROL_CONFIG_PATH x
                              | None \<Rightarrow>
                                  GetBindingDirPath x r @ ''::'' @ CONTROL_CONFIG_PATH x) []
                         # rest))"
  using assms
  by (cases "getEnvDirList x (CONTROL_PREFIX x) ''CONFIG_PATH''")
     (simp_all add: afbBindingEntry_def Let_def root_unset dirList_env dirList_noenv
        split: option.splits)

text \<open>Without settings and without an override:\<close>

theorem C10_missing_binding_path_witness:
  "afb_api_settings no_setting_ext 0 ''binding-path'' = None
   \<and> (\<exists>rc rest. afbBindingEntry no_setting_ext 0 =
          Some (rc, ApiNotice 0 msg_entry # ConfigSearch 0 ''/opt/app::/etc/ctl'' [] # rest))"
  using C10_missing_binding_path [of no_setting_ext 0]
  by (simp add: no_setting_ext_def demo_ext_def)

end
